theory Spec2Isabelle
  imports Complex_Main
begin

section \<open>The DDPM notebook: noise schedule, forward corruption, reverse sampling\<close>

text \<open>
  The development embeds the diffusion cells of
  \<^verbatim>\<open>AutoEncoder_Example/AutoEncoder_Example.ipynb\<close>: the schedule constants computed
  at the top of the training cell, \<^verbatim>\<open>UNet.forward\<close>, \<^verbatim>\<open>DDPM.forward\<close> and
  \<^verbatim>\<open>DDPM.sample\<close>.

  Conventions of the embedding.
  \<^item> Tensor entries are \<^typ>\<open>real\<close> numbers: the float32 arithmetic of the notebook is
    idealised, so rounding, \<^verbatim>\<open>nan\<close> and \<^verbatim>\<open>inf\<close> are not represented. Every statement
    below about values is a statement about this exact arithmetic.
  \<^item> A batch tensor of shape \<^verbatim>\<open>(B, C, H, W)\<close> is a list of \<open>B\<close> rows, each the flattened
    \<^verbatim>\<open>C*H*W\<close> entries of one sample; every operation of the notebook on such
    tensors is elementwise or per row.
  \<^item> The step count \<^verbatim>\<open>T\<close>, the batch size \<^verbatim>\<open>n_sample\<close> and the entries of \<^verbatim>\<open>size\<close>
    (written \<open>sz\<close> below) are natural numbers.
\<close>

subsection \<open>Schedule constants\<close>

text \<open>
  \<^verbatim>\<open>
  beta_t = (beta2 - beta1) * torch.arange(0, T + 1, dtype=torch.float32, device=device) / T + beta1
  alpha_t = 1 - beta_t
  log_alpha_t = torch.log(alpha_t)
  alphabar_t = torch.cumsum(log_alpha_t, dim=0).exp()
  sqrtab = torch.sqrt(alphabar_t).view(-1,1,1,1)
  sqrtmab = torch.sqrt(1 - alphabar_t).view(-1,1,1,1)
  oneover_sqrta = 1 / torch.sqrt(alpha_t)
  mab_over_sqrtmab_inv = (1 - alpha_t) / sqrtmab.squeeze()
  sigma_t = torch.sqrt(beta_t)
  \<close>
  The notebook fixes \<^verbatim>\<open>T = 400\<close>, \<^verbatim>\<open>beta1 = 1e-4\<close>, \<^verbatim>\<open>beta2 = 0.02\<close>; here the three
  globals are parameters of every constant.
\<close>

definition arange :: "nat \<Rightarrow> nat \<Rightarrow> nat list" where
  "arange lo hi = [lo..<hi]"

fun cumsum_from :: "real \<Rightarrow> real list \<Rightarrow> real list" where
  "cumsum_from acc [] = []"
| "cumsum_from acc (x # xs) = (acc + x) # cumsum_from (acc + x) xs"

definition cumsum :: "real list \<Rightarrow> real list" where
  "cumsum xs = cumsum_from 0 xs"

definition beta_t :: "nat \<Rightarrow> real \<Rightarrow> real \<Rightarrow> real list" where
  "beta_t T beta1 beta2 =
     map (\<lambda>k. (beta2 - beta1) * real k / real T + beta1) (arange 0 (T + 1))"

definition alpha_t :: "nat \<Rightarrow> real \<Rightarrow> real \<Rightarrow> real list" where
  "alpha_t T beta1 beta2 = map (\<lambda>b. 1 - b) (beta_t T beta1 beta2)"

definition log_alpha_t :: "nat \<Rightarrow> real \<Rightarrow> real \<Rightarrow> real list" where
  "log_alpha_t T beta1 beta2 = map ln (alpha_t T beta1 beta2)"

definition alphabar_t :: "nat \<Rightarrow> real \<Rightarrow> real \<Rightarrow> real list" where
  "alphabar_t T beta1 beta2 = map exp (cumsum (log_alpha_t T beta1 beta2))"

definition sqrtab :: "nat \<Rightarrow> real \<Rightarrow> real \<Rightarrow> real list" where
  "sqrtab T beta1 beta2 = map sqrt (alphabar_t T beta1 beta2)"

definition sqrtmab :: "nat \<Rightarrow> real \<Rightarrow> real \<Rightarrow> real list" where
  "sqrtmab T beta1 beta2 = map (\<lambda>ab. sqrt (1 - ab)) (alphabar_t T beta1 beta2)"

definition oneover_sqrta :: "nat \<Rightarrow> real \<Rightarrow> real \<Rightarrow> real list" where
  "oneover_sqrta T beta1 beta2 = map (\<lambda>a. 1 / sqrt a) (alpha_t T beta1 beta2)"

definition mab_over_sqrtmab_inv :: "nat \<Rightarrow> real \<Rightarrow> real \<Rightarrow> real list" where
  "mab_over_sqrtmab_inv T beta1 beta2 =
     map2 (\<lambda>a s. (1 - a) / s) (alpha_t T beta1 beta2) (sqrtmab T beta1 beta2)"

definition sigma_t :: "nat \<Rightarrow> real \<Rightarrow> real \<Rightarrow> real list" where
  "sigma_t T beta1 beta2 = map sqrt (beta_t T beta1 beta2)"

subsection \<open>Errors, tensors, the random generator\<close>

text \<open>
  Exceptions are values. \<open>TypeError\<close>, \<open>IndexError\<close> and \<open>RuntimeError\<close> are what Python
  and torch raise; \<open>InvalidConfiguration\<close> is the error the specification names for bad
  schedule hyperparameters (no statement of the notebook raises it).
\<close>

datatype error = InvalidConfiguration | TypeError | IndexError | RuntimeError string

type_synonym tensor = "real list list"

definition same_shape :: "tensor \<Rightarrow> tensor \<Rightarrow> bool" where
  "same_shape a b = (map length a = map length b)"

text \<open>
  torch's global generator is an explicit state: two tapes of pre-drawn values (standard
  normal variates, raw integers) and a read position that every draw advances. Nothing
  is assumed about the tapes, so the distribution of a draw is not represented.
\<close>

record rng =
  normal_tape :: "nat \<Rightarrow> real"
  int_tape :: "nat \<Rightarrow> nat"
  pos :: nat

definition randn_rows :: "nat \<Rightarrow> nat \<Rightarrow> rng \<Rightarrow> tensor \<times> rng" where
  "randn_rows n m g =
     (map (\<lambda>b. map (\<lambda>j. normal_tape g (pos g + b * m + j)) [0..<m]) [0..<n],
      g\<lparr>pos := pos g + n * m\<rparr>)"

definition randn :: "nat \<Rightarrow> nat list \<Rightarrow> rng \<Rightarrow> tensor \<times> rng" where
  \<comment> \<open>\<^verbatim>\<open>torch.randn(n_sample, *size)\<close>\<close>
  "randn n_sample sz g = randn_rows n_sample (prod_list sz) g"

definition randn_like :: "tensor \<Rightarrow> rng \<Rightarrow> tensor \<times> rng" where
  \<comment> \<open>\<^verbatim>\<open>torch.randn_like(x)\<close>\<close>
  "randn_like x g = randn_rows (length x) (case x of [] \<Rightarrow> 0 | r # _ \<Rightarrow> length r) g"

definition randint :: "nat \<Rightarrow> nat \<Rightarrow> nat \<Rightarrow> rng \<Rightarrow> error + (nat list \<times> rng)" where
  \<comment> \<open>\<^verbatim>\<open>torch.randint(low, high, (n,))\<close>: integers in \<open>[low, high)\<close>; raises unless
      \<open>low < high\<close>\<close>
  "randint low high n g =
     (if low < high
      then Inr (map (\<lambda>k. low + int_tape g (pos g + k) mod (high - low)) [0..<n],
                g\<lparr>pos := pos g + n\<rparr>)
      else Inl (RuntimeError ''random_ expects from to be less than to''))"

subsection \<open>Schedule construction as one step\<close>



subsection \<open>The denoiser: \<^verbatim>\<open>UNet.forward\<close>\<close>

text \<open>
  \<^verbatim>\<open>
  def forward(self, x, c):
      start = x
      conv1 = self.dconv_down1(x) ... conv4 = self.dconv_down4(conv3)
      ch = F.one_hot(c, num_classes=10).float().to(device).view(-1,10,1,1)
      x = self.bottleneck(conv4)
      ... torch.cat / dconv_up4 .. dconv_up1 ...
      return self.conv_last(x)
  \<close>
  A call passes a tuple of positional arguments; \<open>forward\<close> binds exactly two, a batch
  tensor and a tensor of class labels, and any other call is a \<open>TypeError\<close>. The
  convolutional layers are parameters of the model: \<open>dconv_down\<close> stands for the four
  down blocks (it returns the skip connections), \<open>dconv_up\<close> for everything after the
  one-hot encoding (bottleneck, concatenations, up blocks, \<open>conv_last\<close>). Either may raise.
  Class labels are natural numbers (\<^verbatim>\<open>torch.arange\<close> and the data loader produce no
  negative label).
\<close>

datatype pyarg = ATensor tensor | AInt nat | ALabels "nat list"

record layers =
  dconv_down :: "tensor \<Rightarrow> error + tensor list"
  dconv_up :: "tensor \<Rightarrow> tensor list \<Rightarrow> tensor \<Rightarrow> error + tensor"

definition one_hot :: "nat list \<Rightarrow> nat \<Rightarrow> error + tensor" where
  \<comment> \<open>\<^verbatim>\<open>F.one_hot(c, num_classes)\<close>\<close>
  "one_hot c num_classes =
     (if list_all (\<lambda>v. v < num_classes) c
      then Inr (map (\<lambda>v. map (\<lambda>k. if k = v then 1 else 0) [0..<num_classes]) c)
      else Inl (RuntimeError ''Class values must be smaller than num_classes.''))"

definition UNet_forward :: "layers \<Rightarrow> pyarg list \<Rightarrow> error + tensor" where
  "UNet_forward net args =
     (case args of
        [ATensor x, ALabels c] \<Rightarrow>
          (case dconv_down net x of
             Inl e \<Rightarrow> Inl e
           | Inr skips \<Rightarrow>
               (case one_hot c 10 of
                  Inl e \<Rightarrow> Inl e
                | Inr ch \<Rightarrow> dconv_up net x skips ch))
      | _ \<Rightarrow> Inl TypeError)"

subsection \<open>\<^verbatim>\<open>DDPM.forward\<close>\<close>

text \<open>
  \<^verbatim>\<open>
  def forward(self, x, c):
      _ts = torch.randint(1, T+1, (x.shape[0],)).to(x.device)
      eps = torch.randn_like(x)
      x_t = (sqrtab[_ts] * x + sqrtmab[_ts] * eps)
      return F.mse_loss(eps, self.net(x_t, c))
  \<close>
  \<open>forward_x_t\<close> is the third line as a function of \<open>_ts\<close>, \<open>x\<close> and \<open>eps\<close>: indexing
  past the end of \<open>sqrtab\<close> raises, and so (in the embedding) do operands whose shapes
  differ. torch raises there too unless the shapes broadcast; inside \<open>forward\<close> the three
  operands always agree. The two operands of \<^verbatim>\<open>F.mse_loss\<close> are treated in the same way.
  \<open>forward\<close> returns its local variables together with the loss.
\<close>

definition forward_x_t ::
  "nat \<Rightarrow> real \<Rightarrow> real \<Rightarrow> nat list \<Rightarrow> tensor \<Rightarrow> tensor \<Rightarrow> error + tensor" where
  "forward_x_t T beta1 beta2 ts x eps =
     (if \<not> list_all (\<lambda>t. t < length (sqrtab T beta1 beta2)) ts then Inl IndexError
      else if length ts \<noteq> length x \<or> \<not> same_shape x eps
      then Inl (RuntimeError ''shape mismatch'')
      else Inr (map (\<lambda>b. map (\<lambda>j. sqrtab T beta1 beta2 ! (ts ! b) * (x ! b ! j)
                                   + sqrtmab T beta1 beta2 ! (ts ! b) * (eps ! b ! j))
                              [0..<length (x ! b)])
                    [0..<length x]))"

definition mse_loss :: "tensor \<Rightarrow> tensor \<Rightarrow> real" where
  "mse_loss a b =
     sum_list (map (\<lambda>(u, v). (u - v)\<^sup>2) (zip (concat a) (concat b))) / real (length (concat a))"

record forward_frame =
  f_ts :: "nat list"
  f_eps :: tensor
  f_x_t :: tensor
  f_args :: "pyarg list"
  f_loss :: real

definition forward ::
  "layers \<Rightarrow> nat \<Rightarrow> real \<Rightarrow> real \<Rightarrow> tensor \<Rightarrow> nat list \<Rightarrow> rng \<Rightarrow> error + forward_frame" where
  "forward net T beta1 beta2 x c g =
     (case randint 1 (T + 1) (length x) g of
        Inl e \<Rightarrow> Inl e
      | Inr (ts, g1) \<Rightarrow>
          (let (eps, g2) = randn_like x g1 in
           case forward_x_t T beta1 beta2 ts x eps of
             Inl e \<Rightarrow> Inl e
           | Inr x_t \<Rightarrow>
               (let args = [ATensor x_t, ALabels c] in
                case UNet_forward net args of
                  Inl e \<Rightarrow> Inl e
                | Inr pred \<Rightarrow>
                    if same_shape eps pred
                    then Inr \<lparr> f_ts = ts, f_eps = eps, f_x_t = x_t, f_args = args,
                               f_loss = mse_loss eps pred \<rparr>
                    else Inl (RuntimeError ''shape mismatch''))))"

subsection \<open>\<^verbatim>\<open>DDPM.sample\<close>\<close>

text \<open>
  \<^verbatim>\<open>
  def sample(self, n_sample, size):
      x_i = torch.randn(n_sample, *size).to(device)
      for i in range(T, 0, -1):
          z = torch.randn(n_sample, *size).to(device) if i > 1 else 0
          eps = self.net(x_i, torch.arange(n_sample))
          x_i = (oneover_sqrta[i] * (x_i - eps * mab_over_sqrtmab_inv[i]) + sigma_t[i] * z )
      return x_i
  \<close>
  \<open>z\<close> is a drawn tensor or the number \<open>0\<close>. The loop is a recursion over the list
  \<open>range(T, 0, -1)\<close>. Every iteration is recorded as an \<open>event\<close>: the index, the generator
  and the tensor it started from, its \<open>z\<close>, the arguments of the denoiser call, what the
  call returned or raised, and the tensor the iteration produced. \<open>sample\<close> returns the
  events with its result; an exception ends the loop at the iteration that raised it. As
  in \<open>forward_x_t\<close>, operands of the update whose shapes differ are a failure.
\<close>

datatype noise = Randn tensor | Zero

fun z_at :: "noise \<Rightarrow> nat \<Rightarrow> nat \<Rightarrow> real" where
  "z_at (Randn t) b j = t ! b ! j"
| "z_at Zero b j = 0"

definition range_down :: "nat \<Rightarrow> nat list" where
  \<comment> \<open>\<^verbatim>\<open>range(T, 0, -1)\<close>\<close>
  "range_down T = rev [1..<T + 1]"

record event =
  ev_i :: nat
  ev_rng :: rng
  ev_x :: tensor
  ev_z :: noise
  ev_args :: "pyarg list"
  ev_eps :: "error + tensor"
  ev_new :: "error + tensor"

definition sample_update ::
  "nat \<Rightarrow> real \<Rightarrow> real \<Rightarrow> nat \<Rightarrow> tensor \<Rightarrow> tensor \<Rightarrow> noise \<Rightarrow> error + tensor" where
  "sample_update T beta1 beta2 i x_i eps z =
     (if \<not> same_shape eps x_i \<or> (case z of Randn t \<Rightarrow> \<not> same_shape t x_i | Zero \<Rightarrow> False)
      then Inl (RuntimeError ''shape mismatch'')
      else Inr (map (\<lambda>b. map (\<lambda>j. oneover_sqrta T beta1 beta2 ! i
                                     * (x_i ! b ! j - eps ! b ! j * mab_over_sqrtmab_inv T beta1 beta2 ! i)
                                   + sigma_t T beta1 beta2 ! i * z_at z b j)
                              [0..<length (x_i ! b)])
                    [0..<length x_i]))"

definition sample_iter ::
  "layers \<Rightarrow> nat \<Rightarrow> real \<Rightarrow> real \<Rightarrow> nat \<Rightarrow> nat list \<Rightarrow> nat \<Rightarrow> tensor \<Rightarrow> rng \<Rightarrow> event \<times> rng" where
  \<comment> \<open>the body of the loop at index \<open>i\<close>, from tensor \<open>x_i\<close> and generator \<open>g\<close>\<close>
  "sample_iter net T beta1 beta2 n_sample sz i x_i g =
     (let (z, g') = (if i > 1 then (let (t, g1) = randn n_sample sz g in (Randn t, g1))
                     else (Zero, g));
          args = [ATensor x_i, ALabels (arange 0 n_sample)];
          eps = UNet_forward net args;
          new = (case eps of Inl e \<Rightarrow> Inl e
                 | Inr p \<Rightarrow> sample_update T beta1 beta2 i x_i p z)
      in (\<lparr> ev_i = i, ev_rng = g, ev_x = x_i, ev_z = z, ev_args = args,
             ev_eps = eps, ev_new = new \<rparr>, g'))"

fun sample_loop ::
  "layers \<Rightarrow> nat \<Rightarrow> real \<Rightarrow> real \<Rightarrow> nat \<Rightarrow> nat list \<Rightarrow> nat list \<Rightarrow> tensor \<Rightarrow> rng
     \<Rightarrow> event list \<times> (error + tensor)" where
  "sample_loop net T beta1 beta2 n_sample sz [] x_i g = ([], Inr x_i)"
| "sample_loop net T beta1 beta2 n_sample sz (i # rest) x_i g =
     (let (ev, g') = sample_iter net T beta1 beta2 n_sample sz i x_i g
      in case ev_new ev of
           Inl e \<Rightarrow> ([ev], Inl e)
         | Inr x' \<Rightarrow>
             (let (evs, res) = sample_loop net T beta1 beta2 n_sample sz rest x' g'
              in (ev # evs, res)))"

definition sample ::
  "layers \<Rightarrow> nat \<Rightarrow> real \<Rightarrow> real \<Rightarrow> nat \<Rightarrow> nat list \<Rightarrow> rng \<Rightarrow> event list \<times> (error + tensor)" where
  "sample net T beta1 beta2 n_sample sz g =
     (let (x_i, g') = randn n_sample sz g
      in sample_loop net T beta1 beta2 n_sample sz (range_down T) x_i g')"

subsection \<open>Concrete inputs used by the instances below\<close>

definition zero_rng :: rng where
  "zero_rng = \<lparr> normal_tape = (\<lambda>k. 0), int_tape = (\<lambda>k. 0), pos = 0 \<rparr>"

definition echo_layers :: layers where
  \<comment> \<open>layers that accept every shape and return their input as the prediction\<close>
  "echo_layers = \<lparr> dconv_down = (\<lambda>x. Inr [x, x, x, x]), dconv_up = (\<lambda>x skips ch. Inr x) \<rparr>"

subsection \<open>Facts about the schedule\<close>

lemma length_cumsum_from: "length (cumsum_from acc xs) = length xs"
  by (induction xs arbitrary: acc) auto

lemma length_cumsum: "length (cumsum xs) = length xs"
  by (simp add: cumsum_def length_cumsum_from)




lemma length_beta_t: "length (beta_t T beta1 beta2) = T + 1"
  by (simp add: beta_t_def arange_def)

lemma length_alpha_t: "length (alpha_t T beta1 beta2) = T + 1"
  by (simp add: alpha_t_def length_beta_t)

lemma length_log_alpha_t: "length (log_alpha_t T beta1 beta2) = T + 1"
  by (simp add: log_alpha_t_def length_alpha_t)

lemma length_alphabar_t: "length (alphabar_t T beta1 beta2) = T + 1"
  by (simp add: alphabar_t_def length_cumsum length_log_alpha_t)

lemma length_sqrtab: "length (sqrtab T beta1 beta2) = T + 1"
  by (simp add: sqrtab_def length_alphabar_t)





lemma beta_t_nth:
  "k \<le> T \<Longrightarrow> beta_t T beta1 beta2 ! k = (beta2 - beta1) * real k / real T + beta1"
  by (simp add: beta_t_def arange_def nth_append less_Suc_eq_le)

lemma alpha_t_nth: "k \<le> T \<Longrightarrow> alpha_t T beta1 beta2 ! k = 1 - beta_t T beta1 beta2 ! k"
  by (simp add: alpha_t_def length_beta_t)

lemma beta_t_bounds:
  assumes "k \<le> T" "beta1 \<le> beta2"
  shows "beta1 \<le> beta_t T beta1 beta2 ! k" and "beta_t T beta1 beta2 ! k \<le> beta2"
proof -
  have frac0: "0 \<le> real k / real T" by simp
  have frac1: "real k / real T \<le> 1"
    using assms(1) by (cases "T = 0") (simp_all add: divide_le_eq)
  have d: "0 \<le> beta2 - beta1" using assms(2) by simp
  have eq: "beta_t T beta1 beta2 ! k = (beta2 - beta1) * (real k / real T) + beta1"
    using assms(1) by (simp add: beta_t_nth)
  have "0 \<le> (beta2 - beta1) * (real k / real T)"
    using d frac0 by (rule mult_nonneg_nonneg)
  then show "beta1 \<le> beta_t T beta1 beta2 ! k" using eq by simp
  have "(beta2 - beta1) * (real k / real T) \<le> (beta2 - beta1) * 1"
    using d frac1 by (rule mult_left_mono [rotated])
  then show "beta_t T beta1 beta2 ! k \<le> beta2" using eq by simp
qed

lemma alpha_t_bounds:
  assumes "k \<le> T" "0 < beta1" "beta1 \<le> beta2" "beta2 < 1"
  shows "0 < alpha_t T beta1 beta2 ! k" and "alpha_t T beta1 beta2 ! k < 1"
  using beta_t_bounds [OF assms(1) assms(3)] assms(2,4) alpha_t_nth [OF assms(1), of beta1 beta2]
  by simp_all

lemma log_alpha_t_nth:
  "k \<le> T \<Longrightarrow> log_alpha_t T beta1 beta2 ! k = ln (alpha_t T beta1 beta2 ! k)"
  by (simp add: log_alpha_t_def length_alpha_t)

lemma log_alpha_t_neg:
  assumes "k \<le> T" "0 < beta1" "beta1 \<le> beta2" "beta2 < 1"
  shows "log_alpha_t T beta1 beta2 ! k < 0"
  using alpha_t_bounds [OF assms] assms(1) by (simp add: log_alpha_t_nth)








subsection \<open>Facts about \<open>forward_x_t\<close>\<close>

lemma sqrtab_nth: "k \<le> T \<Longrightarrow> sqrtab T beta1 beta2 ! k = sqrt (alphabar_t T beta1 beta2 ! k)"
  by (simp add: sqrtab_def length_alphabar_t)

lemma sqrtmab_nth:
  "k \<le> T \<Longrightarrow> sqrtmab T beta1 beta2 ! k = sqrt (1 - alphabar_t T beta1 beta2 ! k)"
  by (simp add: sqrtmab_def length_alphabar_t)

lemma same_shape_length: "same_shape a b \<Longrightarrow> length a = length b"
  unfolding same_shape_def by (rule map_eq_imp_length_eq)

lemma same_shape_row: "same_shape a b \<Longrightarrow> k < length a \<Longrightarrow> length (a ! k) = length (b ! k)"
proof -
  assume s: "same_shape a b" and k: "k < length a"
  have kb: "k < length b" using same_shape_length [OF s] k by simp
  have "map length a ! k = map length b ! k" using s by (simp add: same_shape_def)
  then show ?thesis using k kb by simp
qed

lemma forward_x_t_Inr:
  assumes "\<forall>t \<in> set ts. t \<le> T" "length ts = length x" "same_shape x eps"
  shows "forward_x_t T beta1 beta2 ts x eps =
           Inr (map (\<lambda>b. map (\<lambda>j. sqrtab T beta1 beta2 ! (ts ! b) * (x ! b ! j)
                                   + sqrtmab T beta1 beta2 ! (ts ! b) * (eps ! b ! j))
                              [0..<length (x ! b)])
                    [0..<length x])"
proof -
  have "list_all (\<lambda>t. t < length (sqrtab T beta1 beta2)) ts"
    using assms(1) by (simp add: list_all_iff length_sqrtab less_Suc_eq_le)
  then show ?thesis using assms(2,3) by (simp add: forward_x_t_def)
qed

lemma forward_x_t_entries:
  assumes "forward_x_t T beta1 beta2 ts x eps = Inr x_t"
  shows "same_shape x_t x"
    and "length ts = length x"
    and "same_shape x eps"
    and "\<forall>t \<in> set ts. t \<le> T"
    and "b < length x \<Longrightarrow> j < length (x ! b) \<Longrightarrow>
           x_t ! b ! j = sqrt (alphabar_t T beta1 beta2 ! (ts ! b)) * (x ! b ! j)
                       + sqrt (1 - alphabar_t T beta1 beta2 ! (ts ! b)) * (eps ! b ! j)"
proof -
  from assms have ix: "list_all (\<lambda>t. t < length (sqrtab T beta1 beta2)) ts"
    and len: "length ts = length x" and sh: "same_shape x eps"
    and xt: "x_t = map (\<lambda>b. map (\<lambda>j. sqrtab T beta1 beta2 ! (ts ! b) * (x ! b ! j)
                                   + sqrtmab T beta1 beta2 ! (ts ! b) * (eps ! b ! j))
                              [0..<length (x ! b)])
                    [0..<length x]"
    by (auto simp: forward_x_t_def split: if_splits)
  show "length ts = length x" by (rule len)
  show "same_shape x eps" by (rule sh)
  show le: "\<forall>t \<in> set ts. t \<le> T"
    using ix by (simp add: list_all_iff length_sqrtab less_Suc_eq_le)
  show "same_shape x_t x"
    unfolding same_shape_def xt by (rule nth_equalityI) simp_all
  show "x_t ! b ! j = sqrt (alphabar_t T beta1 beta2 ! (ts ! b)) * (x ! b ! j)
                       + sqrt (1 - alphabar_t T beta1 beta2 ! (ts ! b)) * (eps ! b ! j)"
    if b: "b < length x" and j: "j < length (x ! b)"
  proof -
    have "ts ! b \<in> set ts" using b len by simp
    then have "ts ! b \<le> T" using le by blast
    then show ?thesis using b j by (simp add: xt sqrtab_nth sqrtmab_nth)
  qed
qed

subsection \<open>Facts about \<open>forward\<close>\<close>


lemma forward_Inr:
  assumes "forward net T beta1 beta2 x c g = Inr fr"
  shows "\<exists>g1 g2 pred. randint 1 (T + 1) (length x) g = Inr (f_ts fr, g1)
           \<and> randn_like x g1 = (f_eps fr, g2)
           \<and> forward_x_t T beta1 beta2 (f_ts fr) x (f_eps fr) = Inr (f_x_t fr)
           \<and> f_args fr = [ATensor (f_x_t fr), ALabels c]
           \<and> UNet_forward net (f_args fr) = Inr pred
           \<and> f_loss fr = mse_loss (f_eps fr) pred"
  using assms
  by (auto simp: forward_def Let_def split: sum.splits prod.splits if_splits)


lemma randn_rows_shape:
  "length (fst (randn_rows n m g)) = n"
  "b < n \<Longrightarrow> length (fst (randn_rows n m g) ! b) = m"
  by (simp_all add: randn_rows_def)

lemma forward_echo_zero:
  "\<exists>fr. forward echo_layers 2 (1/4) (1/2) [[1]] [0] zero_rng = Inr fr \<and> f_ts fr = [1]"
  by (simp add: forward_def randint_def zero_rng_def randn_like_def randn_rows_def
      forward_x_t_def length_sqrtab same_shape_def UNet_forward_def echo_layers_def one_hot_def)

subsection \<open>Facts about the sampling loop\<close>


lemma range_down_Suc: "range_down (Suc T) = Suc T # range_down T"
  by (simp add: range_down_def)



lemma sample_iter_fields:
  assumes "sample_iter net T beta1 beta2 n_sample sz i x g = (ev, g')"
  shows "ev_i ev = i" and "ev_rng ev = g" and "ev_x ev = x"
    and "ev_z ev = (if 1 < i then Randn (fst (randn n_sample sz g)) else Zero)"
    and "g' = (if 1 < i then snd (randn n_sample sz g) else g)"
    and "ev_args ev = [ATensor x, ALabels (arange 0 n_sample)]"
    and "ev_eps ev = UNet_forward net [ATensor x, ALabels (arange 0 n_sample)]"
    and "ev_new ev = (case ev_eps ev of Inl e \<Rightarrow> Inl e
                      | Inr p \<Rightarrow> sample_update T beta1 beta2 i x p (ev_z ev))"
proof -
  obtain t g1 where r: "randn n_sample sz g = (t, g1)" by (cases "randn n_sample sz g")
  have ev: "ev = \<lparr> ev_i = i, ev_rng = g, ev_x = x,
                 ev_z = (if 1 < i then Randn t else Zero),
                 ev_args = [ATensor x, ALabels (arange 0 n_sample)],
                 ev_eps = UNet_forward net [ATensor x, ALabels (arange 0 n_sample)],
                 ev_new = (case UNet_forward net [ATensor x, ALabels (arange 0 n_sample)] of
                             Inl e \<Rightarrow> Inl e
                           | Inr p \<Rightarrow> sample_update T beta1 beta2 i x p
                                        (if 1 < i then Randn t else Zero)) \<rparr>"
    and g': "g' = (if 1 < i then g1 else g)"
    using assms r by (auto simp: sample_iter_def Let_def split: if_splits)
  show "ev_i ev = i" "ev_rng ev = g" "ev_x ev = x"
    "ev_args ev = [ATensor x, ALabels (arange 0 n_sample)]"
    "ev_eps ev = UNet_forward net [ATensor x, ALabels (arange 0 n_sample)]"
    by (simp_all add: ev)
  show "ev_z ev = (if 1 < i then Randn (fst (randn n_sample sz g)) else Zero)"
    by (simp add: ev r)
  show "g' = (if 1 < i then snd (randn n_sample sz g) else g)"
    by (simp add: g' r)
  show "ev_new ev = (case ev_eps ev of Inl e \<Rightarrow> Inl e
                      | Inr p \<Rightarrow> sample_update T beta1 beta2 i x p (ev_z ev))"
    by (cases "UNet_forward net [ATensor x, ALabels (arange 0 n_sample)]") (simp_all add: ev)
qed

lemma sample_iter_self:
  assumes "sample_iter net T beta1 beta2 n_sample sz i x g = (ev, g')"
  shows "fst (sample_iter net T beta1 beta2 n_sample sz (ev_i ev) (ev_x ev) (ev_rng ev)) = ev"
  using assms sample_iter_fields(1-3) [OF assms] by simp

lemma sample_loop_Cons_Inl:
  assumes "sample_iter net T beta1 beta2 n_sample sz i x g = (ev, g')" "ev_new ev = Inl e"
  shows "sample_loop net T beta1 beta2 n_sample sz (i # rest) x g = ([ev], Inl e)"
  using assms by simp


lemma sample_loop_Cons_cases:
  assumes "sample_loop net T beta1 beta2 n_sample sz (i # rest) x g = (evs, res)"
  obtains (fail) ev g' e where "sample_iter net T beta1 beta2 n_sample sz i x g = (ev, g')"
      "ev_new ev = Inl e" "evs = [ev]" "res = Inl e"
    | (ok) ev g' x' evs' where "sample_iter net T beta1 beta2 n_sample sz i x g = (ev, g')"
      "ev_new ev = Inr x'" "sample_loop net T beta1 beta2 n_sample sz rest x' g' = (evs', res)"
      "evs = ev # evs'"
proof -
  obtain ev g' where it: "sample_iter net T beta1 beta2 n_sample sz i x g = (ev, g')"
    by (cases "sample_iter net T beta1 beta2 n_sample sz i x g")
  show ?thesis
  proof (cases "ev_new ev")
    case (Inl e)
    with assms it have "evs = [ev]" "res = Inl e" by simp_all
    with it Inl show ?thesis by (rule fail)
  next
    case (Inr x')
    obtain evs' res' where l: "sample_loop net T beta1 beta2 n_sample sz rest x' g' = (evs', res')"
      by (cases "sample_loop net T beta1 beta2 n_sample sz rest x' g'")
    with assms it Inr have "evs = ev # evs'" "res = res'" by simp_all
    with it Inr l show ?thesis using ok by blast
  qed
qed


lemma sample_loop_events:
  assumes "sample_loop net T beta1 beta2 n_sample sz is x g = (evs, res)" "e \<in> set evs"
  shows "fst (sample_iter net T beta1 beta2 n_sample sz (ev_i e) (ev_x e) (ev_rng e)) = e
       \<and> ev_i e \<in> set is"
  using assms
proof (induction "is" arbitrary: x g evs res)
  case Nil
  then show ?case by simp
next
  case (Cons i rest)
  from Cons.prems(1) show ?case
  proof (cases rule: sample_loop_Cons_cases)
    case (fail ev g' err)
    with Cons.prems(2) have "e = ev" by simp
    then show ?thesis using sample_iter_self [OF fail(1)] sample_iter_fields(1) [OF fail(1)]
      by simp
  next
    case (ok ev g' x' evs')
    show ?thesis
    proof (cases "e = ev")
      case True
      then show ?thesis using sample_iter_self [OF ok(1)] sample_iter_fields(1) [OF ok(1)]
        by simp
    next
      case False
      with Cons.prems(2) ok(4) have "e \<in> set evs'" by simp
      from Cons.IH [OF ok(3) this] show ?thesis by simp
    qed
  qed
qed







lemma randn_pos: "pos (snd (randn n_sample sz g)) = pos g + n_sample * prod_list sz"
  by (simp add: randn_def randn_rows_def)








lemma UNet_forward_arity:
  "UNet_forward net [ATensor x, AInt i, ALabels c] = Inl TypeError"
  by (simp add: UNet_forward_def)

lemma UNet_forward_big_batch:
  assumes "10 < n_sample"
  shows "\<exists>e. UNet_forward net [ATensor x, ALabels (arange 0 n_sample)] = Inl e
           \<and> (\<forall>skips. dconv_down net x = Inr skips \<longrightarrow>
                 e = RuntimeError ''Class values must be smaller than num_classes.'')"
proof -
  have "10 \<in> set (arange 0 n_sample)" using assms by (simp add: arange_def)
  then have "\<not> list_all (\<lambda>v. v < 10) (arange 0 n_sample)"
    by (auto simp: list_all_iff)
  then have "one_hot (arange 0 n_sample) 10
               = Inl (RuntimeError ''Class values must be smaller than num_classes.'')"
    by (simp add: one_hot_def)
  then show ?thesis
    by (cases "dconv_down net x") (simp_all add: UNet_forward_def)
qed

lemma UNet_forward_Inr_labels:
  assumes "UNet_forward net [ATensor x, ALabels c] = Inr p"
  shows "\<forall>v \<in> set c. v < 10"
  using assms
  by (auto simp: UNet_forward_def one_hot_def list_all_iff split: sum.splits if_splits)

lemma sample_loop_first_call_fails:
  assumes "UNet_forward net [ATensor x, ALabels (arange 0 n_sample)] = Inl e"
  shows "\<exists>ev. sample_loop net T beta1 beta2 n_sample sz (i # rest) x g = ([ev], Inl e)
            \<and> ev_i ev = i \<and> ev_x ev = x
            \<and> ev_args ev = [ATensor x, ALabels (arange 0 n_sample)]
            \<and> ev_eps ev = Inl e"
proof -
  obtain ev g' where it: "sample_iter net T beta1 beta2 n_sample sz i x g = (ev, g')"
    by (cases "sample_iter net T beta1 beta2 n_sample sz i x g")
  have eps: "ev_eps ev = Inl e" using sample_iter_fields(7) [OF it] assms by simp
  then have "ev_new ev = Inl e" using sample_iter_fields(8) [OF it] by simp
  from sample_loop_Cons_Inl [OF it this] eps sample_iter_fields(1,3,6) [OF it]
  show ?thesis by simp
qed


lemma sample_unfold:
  "sample net T beta1 beta2 n_sample sz g =
     sample_loop net T beta1 beta2 n_sample sz (range_down T)
       (fst (randn n_sample sz g)) (snd (randn n_sample sz g))"
  by (simp add: sample_def split: prod.splits)





lemma sample_big_batch:
  assumes "1 \<le> T" "10 < n_sample"
  shows "\<exists>ev e. sample net T beta1 beta2 n_sample sz g = ([ev], Inl e)
           \<and> ev_i ev = T \<and> ev_x ev = fst (randn n_sample sz g)
           \<and> ev_args ev = [ATensor (ev_x ev), ALabels (arange 0 n_sample)]
           \<and> ev_eps ev = Inl e
           \<and> (\<forall>skips. dconv_down net (ev_x ev) = Inr skips \<longrightarrow>
                 e = RuntimeError ''Class values must be smaller than num_classes.'')"
proof -
  from assms(1) obtain T' where T: "T = Suc T'" by (cases T) auto
  obtain e where e: "UNet_forward net
        [ATensor (fst (randn n_sample sz g)), ALabels (arange 0 n_sample)] = Inl e"
    and msg: "\<forall>skips. dconv_down net (fst (randn n_sample sz g)) = Inr skips \<longrightarrow>
                 e = RuntimeError ''Class values must be smaller than num_classes.''"
    using UNet_forward_big_batch [OF assms(2)] by blast
  from sample_loop_first_call_fails [OF e, of T beta1 beta2 sz T "range_down T'"
      "snd (randn n_sample sz g)"] msg
  show ?thesis unfolding sample_unfold T range_down_Suc by auto
qed

subsection \<open>Two concrete runs\<close>

lemma range_down_2: "range_down 2 = [2, 1]"
  by (simp add: range_down_def upt_rec)

lemma sample_echo_zero_2:
  "sample echo_layers 2 (1/4) (1/2) 1 [1] zero_rng =
     ([\<lparr> ev_i = 2, ev_rng = zero_rng\<lparr>pos := 1\<rparr>, ev_x = [[0]], ev_z = Randn [[0]],
          ev_args = [ATensor [[0]], ALabels [0]], ev_eps = Inr [[0]], ev_new = Inr [[0]] \<rparr>,
       \<lparr> ev_i = 1, ev_rng = zero_rng\<lparr>pos := 2\<rparr>, ev_x = [[0]], ev_z = Zero,
          ev_args = [ATensor [[0]], ALabels [0]], ev_eps = Inr [[0]], ev_new = Inr [[0]] \<rparr>],
      Inr [[0]])"
  by (simp add: sample_def randn_def randn_rows_def zero_rng_def range_down_2 sample_iter_def
      UNet_forward_def echo_layers_def one_hot_def arange_def sample_update_def same_shape_def)


section \<open>The claims\<close>

subsection \<open>C5: shape and monotonicity of the schedule\<close>



subsection \<open>C3: the construction does not validate its inputs\<close>



subsection \<open>C4: the forward corruption\<close>

text \<open>
  Claim C4. For every clean batch \<open>x0\<close>, every vector \<open>ts\<close> with one timestep in \<open>[1, T]\<close>
  per batch element, and every noise tensor of the shape of \<open>x0\<close>, the forward corruption
  returns \<open>x_t\<close> with entries \<open>sqrt(alphabar_t) * x0 + sqrt(1 - alphabar_t) * noise\<close>, where
  the coefficients of batch element \<open>b\<close> are those of its own timestep \<open>ts ! b\<close>; with
  zero noise the result is \<open>sqrt(alphabar_t) * x0\<close>.
\<close>

theorem forward_x_t_formula:
  assumes "\<forall>t \<in> set ts. 1 \<le> t \<and> t \<le> T" "length ts = length x0" "same_shape x0 noise"
  shows "\<exists>x_t. forward_x_t T beta1 beta2 ts x0 noise = Inr x_t
           \<and> same_shape x_t x0
           \<and> (\<forall>b < length x0. \<forall>j < length (x0 ! b).
                 x_t ! b ! j = sqrt (alphabar_t T beta1 beta2 ! (ts ! b)) * (x0 ! b ! j)
                             + sqrt (1 - alphabar_t T beta1 beta2 ! (ts ! b)) * (noise ! b ! j))
           \<and> ((\<forall>b < length x0. \<forall>j < length (x0 ! b). noise ! b ! j = 0) \<longrightarrow>
               (\<forall>b < length x0. \<forall>j < length (x0 ! b).
                 x_t ! b ! j = sqrt (alphabar_t T beta1 beta2 ! (ts ! b)) * (x0 ! b ! j)))"
proof -
  have le: "\<forall>t \<in> set ts. t \<le> T" using assms(1) by blast
  obtain x_t where xt: "forward_x_t T beta1 beta2 ts x0 noise = Inr x_t"
    using forward_x_t_Inr [OF le assms(2,3)] by blast
  have f: "\<forall>b < length x0. \<forall>j < length (x0 ! b).
                 x_t ! b ! j = sqrt (alphabar_t T beta1 beta2 ! (ts ! b)) * (x0 ! b ! j)
                             + sqrt (1 - alphabar_t T beta1 beta2 ! (ts ! b)) * (noise ! b ! j)"
    using forward_x_t_entries(5) [OF xt] by blast
  then have z: "(\<forall>b < length x0. \<forall>j < length (x0 ! b). noise ! b ! j = 0) \<longrightarrow>
               (\<forall>b < length x0. \<forall>j < length (x0 ! b).
                 x_t ! b ! j = sqrt (alphabar_t T beta1 beta2 ! (ts ! b)) * (x0 ! b ! j))"
    by simp
  show ?thesis using xt forward_x_t_entries(1) [OF xt] f z by blast
qed

text \<open>An instance: two batch elements at timesteps 1 and 2, zero noise.\<close>

theorem forward_x_t_formula_witness:
  "\<exists>x_t. forward_x_t 2 (1/4) (1/2) [1, 2] [[1], [2]] [[0], [0]] = Inr x_t
      \<and> x_t ! 0 ! 0 = sqrt (alphabar_t 2 (1/4) (1/2) ! 1) * 1
      \<and> x_t ! 1 ! 0 = sqrt (alphabar_t 2 (1/4) (1/2) ! 2) * 2"
proof -
  have h1: "\<forall>t \<in> set [1, 2 :: nat]. 1 \<le> t \<and> t \<le> 2" by simp
  have h2: "length [1, 2 :: nat] = length [[1], [2 :: real]]" by simp
  have h3: "same_shape [[1], [2]] [[0], [0]]" by (simp add: same_shape_def)
  from forward_x_t_formula [OF h1 h2 h3, of "1/4" "1/2"]
  obtain x_t where xt: "forward_x_t 2 (1/4) (1/2) [1, 2] [[1], [2]] [[0], [0]] = Inr x_t"
    and z: "(\<forall>b < length [[1], [2 :: real]]. \<forall>j < length ([[1], [2 :: real]] ! b).
                [[0], [0 :: real]] ! b ! j = 0) \<longrightarrow>
            (\<forall>b < length [[1], [2 :: real]]. \<forall>j < length ([[1], [2 :: real]] ! b).
                 x_t ! b ! j = sqrt (alphabar_t 2 (1/4) (1/2) ! ([1, 2] ! b)) * ([[1], [2]] ! b ! j))"
    by blast
  have zero: "\<forall>b < length [[1], [2 :: real]]. \<forall>j < length ([[1], [2 :: real]] ! b).
                [[0], [0 :: real]] ! b ! j = 0"
    by (simp add: less_Suc_eq nth_Cons')
  from z zero have e: "\<forall>b < length [[1], [2 :: real]]. \<forall>j < length ([[1], [2 :: real]] ! b).
                 x_t ! b ! j = sqrt (alphabar_t 2 (1/4) (1/2) ! ([1, 2] ! b)) * ([[1], [2]] ! b ! j)"
    by blast
  from e [rule_format, of 0 0] e [rule_format, of 1 0] xt show ?thesis by simp
qed

subsection \<open>C7: the noise can be recovered from the corrupted batch\<close>



subsection \<open>C6: the first entry of \<open>alphabar_t\<close>, and the training timesteps\<close>





subsection \<open>C1: the update of the reverse sampling loop\<close>



subsection \<open>C2: what the denoiser is called with\<close>

text \<open>
  Claim C2 as stated (the denoiser is invoked with the batch, the timestep index \<open>i\<close> and
  the condition) is false: in the run with \<open>T = 2\<close> the call of the first iteration,
  at index 2, has the two arguments \<open>x_i\<close> and \<open>arange(1)\<close>, and no timestep.
\<close>

theorem denoiser_arguments_counterexample:
  "ev_i (hd (fst (sample echo_layers 2 (1/4) (1/2) 1 [1] zero_rng))) = 2
   \<and> ev_args (hd (fst (sample echo_layers 2 (1/4) (1/2) 1 [1] zero_rng)))
        = [ATensor [[0]], ALabels [0]]
   \<and> ev_args (hd (fst (sample echo_layers 2 (1/4) (1/2) 1 [1] zero_rng)))
        \<noteq> [ATensor [[0]], AInt 2, ALabels [0]]"
  using sample_echo_zero_2 by simp

text \<open>
  Claim C2, amended. At every iteration of the reverse sampling loop the denoiser is
  invoked with exactly two arguments, the current noisy batch and the labels
  \<open>arange(n_sample)\<close>, and its result is the predicted noise; the training-time forward
  process invokes it with the corrupted batch \<open>x_t\<close> and the labels \<open>c\<close> and scores its
  prediction against the drawn noise with the mean squared error. Neither call passes a
  timestep, and \<open>UNet.forward\<close> cannot take one: a call with three arguments is a
  \<open>TypeError\<close>.
\<close>

theorem denoiser_arguments:
  "(\<forall>e \<in> set (fst (sample net T beta1 beta2 n_sample sz g)).
        ev_args e = [ATensor (ev_x e), ALabels (arange 0 n_sample)]
      \<and> ev_eps e = UNet_forward net (ev_args e)
      \<and> (\<forall>t. AInt t \<notin> set (ev_args e)))
   \<and> (\<forall>fr. forward net T beta1 beta2 x c g = Inr fr \<longrightarrow>
        f_args fr = [ATensor (f_x_t fr), ALabels c]
      \<and> forward_x_t T beta1 beta2 (f_ts fr) x (f_eps fr) = Inr (f_x_t fr)
      \<and> (\<exists>pred. UNet_forward net (f_args fr) = Inr pred
                 \<and> f_loss fr = mse_loss (f_eps fr) pred)
      \<and> (\<forall>t. AInt t \<notin> set (f_args fr)))
   \<and> (\<forall>y i l. UNet_forward net [ATensor y, AInt i, ALabels l] = Inl TypeError)"
proof -
  have a: "ev_args e = [ATensor (ev_x e), ALabels (arange 0 n_sample)]
      \<and> ev_eps e = UNet_forward net (ev_args e)
      \<and> (\<forall>t. AInt t \<notin> set (ev_args e))"
    if mem: "e \<in> set (fst (sample net T beta1 beta2 n_sample sz g))" for e
  proof -
    obtain evs res where s: "sample net T beta1 beta2 n_sample sz g = (evs, res)"
      by (cases "sample net T beta1 beta2 n_sample sz g")
    note l = s [unfolded sample_unfold]
    from mem s have m: "e \<in> set evs" by simp
    obtain ev g' where it: "sample_iter net T beta1 beta2 n_sample sz (ev_i e) (ev_x e) (ev_rng e)
                              = (ev, g')"
      by (cases "sample_iter net T beta1 beta2 n_sample sz (ev_i e) (ev_x e) (ev_rng e)")
    from sample_loop_events [OF l m] it have eq: "ev = e" by simp
    from sample_iter_fields(6,7) [OF it, unfolded eq] show ?thesis by simp
  qed
  have b: "f_args fr = [ATensor (f_x_t fr), ALabels c]
      \<and> forward_x_t T beta1 beta2 (f_ts fr) x (f_eps fr) = Inr (f_x_t fr)
      \<and> (\<exists>pred. UNet_forward net (f_args fr) = Inr pred
                 \<and> f_loss fr = mse_loss (f_eps fr) pred)
      \<and> (\<forall>t. AInt t \<notin> set (f_args fr))"
    if "forward net T beta1 beta2 x c g = Inr fr" for fr
    using forward_Inr [OF that] by auto
  from a b UNet_forward_arity show ?thesis by blast
qed

text \<open>An instance: the same run of \<open>sample\<close>, and \<open>forward\<close> on a batch of one sample.\<close>

theorem denoiser_arguments_witness:
  "ev_args (hd (fst (sample echo_layers 2 (1/4) (1/2) 1 [1] zero_rng)))
      = [ATensor (ev_x (hd (fst (sample echo_layers 2 (1/4) (1/2) 1 [1] zero_rng)))),
         ALabels (arange 0 1)]
   \<and> (\<exists>fr. forward echo_layers 2 (1/4) (1/2) [[1]] [0] zero_rng = Inr fr
          \<and> f_args fr = [ATensor (f_x_t fr), ALabels [0]])"
proof -
  note th = denoiser_arguments [of echo_layers 2 "1/4" "1/2" 1 "[1]" zero_rng "[[1]]" "[0]"]
  have "hd (fst (sample echo_layers 2 (1/4) (1/2) 1 [1] zero_rng))
          \<in> set (fst (sample echo_layers 2 (1/4) (1/2) 1 [1] zero_rng))"
    using sample_echo_zero_2 by simp
  with th have a: "ev_args (hd (fst (sample echo_layers 2 (1/4) (1/2) 1 [1] zero_rng)))
      = [ATensor (ev_x (hd (fst (sample echo_layers 2 (1/4) (1/2) 1 [1] zero_rng)))),
         ALabels (arange 0 1)]" by blast
  obtain fr where fr: "forward echo_layers 2 (1/4) (1/2) [[1]] [0] zero_rng = Inr fr"
    using forward_echo_zero by blast
  with th have "f_args fr = [ATensor (f_x_t fr), ALabels [0]]" by blast
  with a fr show ?thesis by blast
qed

subsection \<open>C9: how many iterations the loop runs\<close>




subsection \<open>C10: more than ten samples\<close>

text \<open>
  Claim C10. With \<open>T \<ge> 1\<close> (the notebook has \<open>T = 400\<close>), every call of \<open>sample\<close> with
  \<open>n_sample > 10\<close> fails at the first denoiser invocation: the run consists of the one
  iteration at index \<open>T\<close>, whose call passes the labels \<open>arange(n_sample)\<close> and raises;
  when the down blocks accept the batch, the error is the one of \<open>F.one_hot\<close> with its
  ten classes. A denoiser call that returns had all its labels below 10, so \<open>sample\<close>
  returns a tensor only when \<open>n_sample \<le> 10\<close>.
\<close>

theorem sample_fails_beyond_ten_classes:
  assumes "1 \<le> T"
  shows "(10 < n_sample \<longrightarrow>
            (\<exists>ev e. sample net T beta1 beta2 n_sample sz g = ([ev], Inl e)
               \<and> ev_i ev = T \<and> ev_x ev = fst (randn n_sample sz g)
               \<and> ev_args ev = [ATensor (ev_x ev), ALabels (arange 0 n_sample)]
               \<and> ev_eps ev = Inl e
               \<and> (\<forall>skips. dconv_down net (ev_x ev) = Inr skips \<longrightarrow>
                     e = RuntimeError ''Class values must be smaller than num_classes.'')))
       \<and> (\<forall>x c p. UNet_forward net [ATensor x, ALabels c] = Inr p \<longrightarrow> (\<forall>v \<in> set c. v < 10))
       \<and> ((\<exists>y. snd (sample net T beta1 beta2 n_sample sz g) = Inr y) \<longrightarrow> n_sample \<le> 10)"
proof -
  have a: "10 < n_sample \<longrightarrow>
            (\<exists>ev e. sample net T beta1 beta2 n_sample sz g = ([ev], Inl e)
               \<and> ev_i ev = T \<and> ev_x ev = fst (randn n_sample sz g)
               \<and> ev_args ev = [ATensor (ev_x ev), ALabels (arange 0 n_sample)]
               \<and> ev_eps ev = Inl e
               \<and> (\<forall>skips. dconv_down net (ev_x ev) = Inr skips \<longrightarrow>
                     e = RuntimeError ''Class values must be smaller than num_classes.''))"
    using sample_big_batch [OF assms] by blast
  have b: "\<forall>x c p. UNet_forward net [ATensor x, ALabels c] = Inr p \<longrightarrow> (\<forall>v \<in> set c. v < 10)"
    using UNet_forward_Inr_labels by blast
  have c: "(\<exists>y. snd (sample net T beta1 beta2 n_sample sz g) = Inr y) \<longrightarrow> n_sample \<le> 10"
  proof
    assume ok: "\<exists>y. snd (sample net T beta1 beta2 n_sample sz g) = Inr y"
    show "n_sample \<le> 10"
    proof (rule ccontr)
      assume "\<not> n_sample \<le> 10"
      then have "10 < n_sample" by simp
      with a obtain ev e where "sample net T beta1 beta2 n_sample sz g = ([ev], Inl e)" by blast
      with ok show False by simp
    qed
  qed
  from a b c show ?thesis by blast
qed

text \<open>
  An instance: the notebook's configuration and image size with eleven samples.
\<close>

theorem sample_fails_beyond_ten_classes_witness:
  "(1::nat) \<le> 400 \<and> (10::nat) < 11
   \<and> length (fst (sample echo_layers 400 (1/10000) (1/50) 11 [3, 32, 32] zero_rng)) = 1
   \<and> ev_i (hd (fst (sample echo_layers 400 (1/10000) (1/50) 11 [3, 32, 32] zero_rng))) = 400
   \<and> snd (sample echo_layers 400 (1/10000) (1/50) 11 [3, 32, 32] zero_rng)
        = Inl (RuntimeError ''Class values must be smaller than num_classes.'')"
proof -
  have T: "(1::nat) \<le> 400" and n: "(10::nat) < 11" by simp_all
  from sample_fails_beyond_ten_classes [OF T, of 11 echo_layers "1/10000" "1/50" "[3, 32, 32]"
      zero_rng] n
  obtain ev e where s: "sample echo_layers 400 (1/10000) (1/50) 11 [3, 32, 32] zero_rng
                          = ([ev], Inl e)"
    and i: "ev_i ev = 400"
    and m: "\<forall>skips. dconv_down echo_layers (ev_x ev) = Inr skips \<longrightarrow>
                 e = RuntimeError ''Class values must be smaller than num_classes.''"
    by blast
  have "dconv_down echo_layers (ev_x ev) = Inr [ev_x ev, ev_x ev, ev_x ev, ev_x ev]"
    by (simp add: echo_layers_def)
  with m have "e = RuntimeError ''Class values must be smaller than num_classes.''" by blast
  with s i T n show ?thesis by simp
qed

end
